theory Spec2Isabelle
  imports Main "HOL-Library.Sublist"
begin

section \<open>Lead scoring backend: a model of app.py\<close>

text \<open>
  The service keeps an offer, a batch of leads and the last scoring results in three
  module-level variables. A scoring pass gives every lead a rule-based score
  (\<open>rule_based_score\<close>), asks a completion service for a buying intent
  (\<open>ai_score_and_reason\<close>) and adds the points of that intent (\<open>score_leads\<close>).
  Exceptions are values of \<open>py_error\<close>: a function that can raise returns
  \<open>py_error + 'a\<close>, with \<open>Inl\<close> for the exception.
\<close>

subsection \<open>Python values\<close>

datatype py_error =
    KeyError
  | IndexError
  | AttributeError
  | TypeError
  | ValueError
  | JSONDecodeError
  | ServiceError
  | HTTPException nat string

text \<open>
  A cell of a lead row. The scoring code looks at a cell in two ways only: through
  \<open>str(v)\<close> and through its truth value. A number (an int or a float, NaN included) is
  therefore kept as the text \<open>str\<close> prints for it and whether it is non-zero; pandas
  reads an empty CSV cell as NaN, which is \<open>PyNum ''nan'' True\<close>.
\<close>

datatype pyval =
    PyNone
  | PyBool bool
  | PyNum string bool
  | PyStr string

fun truthy :: "pyval \<Rightarrow> bool" where
  "truthy PyNone = False"
| "truthy (PyBool b) = b"
| "truthy (PyNum t nonzero) = nonzero"
| "truthy (PyStr s) = (s \<noteq> [])"

fun py_str :: "pyval \<Rightarrow> string" where
  "py_str PyNone = ''None''"
| "py_str (PyBool b) = (if b then ''True'' else ''False'')"
| "py_str (PyNum t nonzero) = t"
| "py_str (PyStr s) = s"

text \<open>A lead is a dict from column names to cells; \<open>dict_get d k default\<close> is \<open>d.get(k, default)\<close>.\<close>

type_synonym lead = "string \<rightharpoonup> pyval"

definition dict_get :: "('k \<rightharpoonup> 'v) \<Rightarrow> 'k \<Rightarrow> 'v \<Rightarrow> 'v" where
  "dict_get d k dflt = (case d k of None \<Rightarrow> dflt | Some v \<Rightarrow> v)"

subsection \<open>Python string operations\<close>

text \<open>
  A string is a list of characters, a character a code point below 256 (ASCII and
  Latin-1). \<open>py_lower\<close> is \<open>str.lower()\<close> there: the capital letters are the codes 65
  to 90 and 192 to 222 without 215 (the multiplication sign), and the small letter of
  each is 32 above it; every other character is left as it is.
\<close>

definition lower_chr :: "char \<Rightarrow> char" where
  "lower_chr c =
     (let n = (of_char c :: nat) in
      if (65 \<le> n \<and> n \<le> 90) \<or> (192 \<le> n \<and> n \<le> 222 \<and> n \<noteq> 215)
      then char_of (n + 32)
      else c)"

definition py_lower :: "string \<Rightarrow> string" where
  "py_lower s = map lower_chr s"

text \<open>\<open>str_in k s\<close> is Python's \<open>k in s\<close> on strings: \<open>k\<close> occurs in \<open>s\<close> as a substring.\<close>

fun str_in :: "string \<Rightarrow> string \<Rightarrow> bool" where
  "str_in k [] = (k = [])"
| "str_in k (c # cs) = (prefix k (c # cs) \<or> str_in k cs)"

text \<open>
  \<open>py_split\<close> is \<open>str.split()\<close> with no argument: the maximal runs of characters
  that are not whitespace. Below 256 the whitespace of \<open>str.isspace\<close> is the codes 9
  to 13, 28 to 32, 133 (next line) and 160 (no-break space).
\<close>

definition is_space :: "char \<Rightarrow> bool" where
  "is_space c =
     (let n = (of_char c :: nat) in
      (9 \<le> n \<and> n \<le> 13) \<or> (28 \<le> n \<and> n \<le> 32) \<or> n = 133 \<or> n = 160)"

fun split_acc :: "string \<Rightarrow> string \<Rightarrow> string list" where
  "split_acc w [] = (if w = [] then [] else [w])"
| "split_acc w (c # cs) =
     (if is_space c then (if w = [] then split_acc [] cs else w # split_acc [] cs)
      else split_acc (w @ [c]) cs)"

definition py_split :: "string \<Rightarrow> string list" where
  "py_split s = split_acc [] s"

subsection \<open>The offer\<close>

text \<open>
  The pydantic model \<open>Offer\<close>. The variable \<open>OFFER_DATA\<close> holds either the empty
  dict \<open>{}\<close> (\<open>None\<close> here) or \<open>offer.dict()\<close>, a dict with exactly the three keys
  of the model (\<open>Some\<close> of the record).
\<close>

record offer =
  offer_name :: string
  value_props :: "string list"
  ideal_use_cases :: "string list"

type_synonym offer_dict = "offer option"

text \<open>\<open>bool(offer)\<close>: a dict is true when it is not empty.\<close>

definition offer_truthy :: "offer_dict \<Rightarrow> bool" where
  "offer_truthy d = (case d of None \<Rightarrow> False | Some off \<Rightarrow> True)"

text \<open>\<open>bool(offer.get("ideal_use_cases"))\<close>: a missing key gives None, a list is true when it is not empty.\<close>

definition get_use_cases_truthy :: "offer_dict \<Rightarrow> bool" where
  "get_use_cases_truthy d = (case d of None \<Rightarrow> False | Some off \<Rightarrow> ideal_use_cases off \<noteq> [])"

text \<open>\<open>offer["ideal_use_cases"]\<close> raises KeyError on a missing key, \<open>xs[0]\<close> raises IndexError on an empty list.\<close>

definition subscript_use_cases :: "offer_dict \<Rightarrow> py_error + string list" where
  "subscript_use_cases d = (case d of None \<Rightarrow> Inl KeyError | Some off \<Rightarrow> Inr (ideal_use_cases off))"

definition subscript0 :: "'a list \<Rightarrow> py_error + 'a" where
  "subscript0 xs = (case xs of [] \<Rightarrow> Inl IndexError | x # rest \<Rightarrow> Inr x)"

subsection \<open>Rule-based scoring\<close>

text \<open>
  \<open>rule_based_score\<close> (lines 87 to 106), statement by statement: \<open>score\<close> starts at
  0 and is raised by the block for the role (lines 89 to 93), the block for the industry
  (lines 95 to 101) and the block for a complete row (lines 103 and 104). Only the
  second block has subscripts, which can raise.
\<close>

definition rule_based_score :: "lead \<Rightarrow> offer_dict \<Rightarrow> py_error + int" where
  "rule_based_score lead offer =
     (let score = 0;
          role = py_lower (py_str (dict_get lead ''role'' (PyStr '''')));
          score =
            (if list_ex (\<lambda>k. str_in k role) [''head'', ''director'', ''vp'', ''founder'', ''ceo'']
             then score + 20
             else if list_ex (\<lambda>k. str_in k role) [''manager'', ''lead'', ''specialist'']
             then score + 10
             else score);
          industry = py_lower (py_str (dict_get lead ''industry'' (PyStr '''')))
      in case
           (if offer_truthy offer \<and> get_use_cases_truthy offer then
              (case subscript_use_cases offer of
                 Inl e \<Rightarrow> Inl e
               | Inr cases \<Rightarrow>
                   (case subscript0 cases of
                      Inl e \<Rightarrow> Inl e
                    | Inr first \<Rightarrow>
                        (let icp = py_lower first in
                         Inr (if str_in icp industry then score + 20
                              else if list_ex (\<lambda>word. str_in word industry) (py_split icp)
                              then score + 10
                              else score))))
            else Inr score)
         of
           Inl e \<Rightarrow> Inl e
         | Inr score \<Rightarrow>
             Inr (if list_all (\<lambda>col. truthy (dict_get lead col PyNone))
                       [''name'', ''role'', ''company'', ''industry'', ''location'',
                        ''linkedin_bio'']
                  then score + 10
                  else score))"

text \<open>
  What each of the three blocks adds, on its own: the points for the role, the points
  for the industry and the completeness bonus. The score is their sum (lemma
  \<open>rule_based_score_sum\<close> below).
\<close>

definition tier_a :: "string list" where
  "tier_a = [''head'', ''director'', ''vp'', ''founder'', ''ceo'']"

definition tier_b :: "string list" where
  "tier_b = [''manager'', ''lead'', ''specialist'']"

definition required_cols :: "string list" where
  "required_cols = [''name'', ''role'', ''company'', ''industry'', ''location'', ''linkedin_bio'']"

definition role_text :: "lead \<Rightarrow> string" where
  "role_text lead = py_lower (py_str (dict_get lead ''role'' (PyStr '''')))"

definition industry_text :: "lead \<Rightarrow> string" where
  "industry_text lead = py_lower (py_str (dict_get lead ''industry'' (PyStr '''')))"

definition seniority_points :: "lead \<Rightarrow> int" where
  "seniority_points lead =
     (let role = role_text lead in
      if list_ex (\<lambda>k. str_in k role) tier_a then 20
      else if list_ex (\<lambda>k. str_in k role) tier_b then 10
      else 0)"

definition icp_points :: "string \<Rightarrow> string \<Rightarrow> int" where
  "icp_points icp industry =
     (if str_in icp industry then 20
      else if list_ex (\<lambda>word. str_in word industry) (py_split icp) then 10
      else 0)"

definition industry_points :: "lead \<Rightarrow> offer_dict \<Rightarrow> py_error + int" where
  "industry_points lead offer =
     (let industry = industry_text lead in
      if offer_truthy offer \<and> get_use_cases_truthy offer then
        (case subscript_use_cases offer of
           Inl e \<Rightarrow> Inl e
         | Inr cases \<Rightarrow>
             (case subscript0 cases of
                Inl e \<Rightarrow> Inl e
              | Inr first \<Rightarrow> Inr (icp_points (py_lower first) industry)))
      else Inr 0)"

definition completeness_points :: "lead \<Rightarrow> int" where
  "completeness_points lead =
     (if list_all (\<lambda>col. truthy (dict_get lead col PyNone)) required_cols then 10 else 0)"

subsection \<open>The intent classifier\<close>

text \<open>
  What \<open>json.loads\<close> returns. A number is kept as its literal; an object is the list of
  the items of the parsed dict (its keys are distinct), read with \<open>map_of\<close>.
\<close>

datatype json =
    JNull
  | JBool bool
  | JNum string
  | JStr string
  | JArr "json list"
  | JObj "(string \<times> json) list"

type_synonym ai_dict = "(string \<times> json) list"

text \<open>
  One call of \<open>client.chat.completions.create\<close> either raises or returns a response,
  of which the code reads \<open>response.choices[i].message.content\<close>: the response is the
  list of these contents, each a string or None. The service is a function of what the
  prompt is built from, the lead and the offer; nothing is assumed about it.
  \<open>json.loads\<close> is a library function and a parameter of the model as well:
  \<open>None\<close> when it raises, the parsed value otherwise.
\<close>

datatype completion =
    ServiceRaises
  | Choices "string option list"

type_synonym client = "lead \<Rightarrow> offer_dict \<Rightarrow> completion"

type_synonym json_parser = "string \<Rightarrow> json option"

text \<open>
  Lines 54 to 59: the client exists only when the environment variable
  \<open>OPENAI_API_KEY\<close> is set to a non-empty string (\<open>os.getenv\<close> gives None when it
  is not set).
\<close>

definition init_client :: "string option \<Rightarrow> client \<Rightarrow> client option" where
  "init_client api_key service =
     (case api_key of
        None \<Rightarrow> None
      | Some k \<Rightarrow> if k = [] then None else Some service)"

text \<open>\<open>str.strip()\<close> and \<open>str.replace(old, new)\<close> (every occurrence, left to right).\<close>

definition py_strip :: "string \<Rightarrow> string" where
  "py_strip s = rev (dropWhile is_space (rev (dropWhile is_space s)))"

function py_replace :: "string \<Rightarrow> string \<Rightarrow> string \<Rightarrow> string" where
  "py_replace old new s =
     (if old = [] then new @ concat (map (\<lambda>c. c # new) s)
      else if s = [] then []
      else if prefix old s then new @ py_replace old new (drop (length old) s)
      else hd s # py_replace old new (tl s))"
  by pat_completeness auto
termination
  by (relation "measure (\<lambda>(old, new, s). length s)") auto

declare py_replace.simps [simp del]

text \<open>Lines 139 to 143: the text that is handed to \<open>json.loads\<close>.\<close>

definition clean_text :: "string \<Rightarrow> string" where
  "clean_text content =
     (let text = py_strip content in
      if prefix ''```json'' text
      then py_strip (py_replace ''```'' '''' (py_replace ''```json'' '''' text))
      else text)"

definition not_configured :: ai_dict where
  "not_configured =
     [(''intent'', JStr ''Medium''),
      (''reasoning'', JStr ''AI not configured; using default reasoning.'')]"

definition error_fallback :: ai_dict where
  "error_fallback =
     [(''intent'', JStr ''Medium''),
      (''reasoning'', JStr ''Default reasoning due to AI error.'')]"

text \<open>
  The body of the \<open>try\<close> block (lines 130 to 149), given the outcome of the call:
  \<open>choices[0]\<close> raises IndexError on an empty list, \<open>content.strip()\<close> raises
  AttributeError on None, \<open>json.loads\<close> raises JSONDecodeError, and line 147 raises
  ValueError.
\<close>

definition ai_try :: "json_parser \<Rightarrow> completion \<Rightarrow> py_error + ai_dict" where
  "ai_try json_loads response =
     (case response of
        ServiceRaises \<Rightarrow> Inl ServiceError
      | Choices choices \<Rightarrow>
          (case subscript0 choices of
             Inl e \<Rightarrow> Inl e
           | Inr content \<Rightarrow>
               (case content of
                  None \<Rightarrow> Inl AttributeError
                | Some c \<Rightarrow>
                    (case json_loads (clean_text c) of
                       None \<Rightarrow> Inl JSONDecodeError
                     | Some data \<Rightarrow>
                         (case data of
                            JObj d \<Rightarrow>
                              if map_of d ''intent'' = None \<or> map_of d ''reasoning'' = None
                              then Inl ValueError
                              else Inr d
                          | _ \<Rightarrow> Inl ValueError)))))"

text \<open>
  \<open>ai_score_and_reason\<close>: without a client the fixed answer of line 114; otherwise
  the \<open>try\<close> block, whose every exception is caught at line 151. The prompt is built
  before the \<open>try\<close> by \<open>json.dumps\<close> of two dicts with string keys and values that
  are None, booleans, numbers, strings or lists of strings; that step has no raising
  branch.
\<close>

definition ai_score_and_reason ::
  "json_parser \<Rightarrow> client option \<Rightarrow> lead \<Rightarrow> offer_dict \<Rightarrow> py_error + ai_dict" where
  "ai_score_and_reason json_loads client lead offer =
     (case client of
        None \<Rightarrow> Inr not_configured
      | Some service \<Rightarrow>
          (case ai_try json_loads (service lead offer) of
             Inl e \<Rightarrow> Inr error_fallback
           | Inr data \<Rightarrow> Inr data))"

subsection \<open>The scoring pass\<close>

text \<open>
  Line 174: \<open>{"High": 50, "Medium": 30, "Low": 10}.get(intent, 30)\<close>. The lookup hashes
  its key, so a list or a dict raises TypeError; no other value equals one of the three
  keys but the string itself.
\<close>

definition ai_points :: "json \<Rightarrow> py_error + int" where
  "ai_points intent =
     (case intent of
        JArr xs \<Rightarrow> Inl TypeError
      | JObj d \<Rightarrow> Inl TypeError
      | JStr s \<Rightarrow>
          Inr (if s = ''High'' then 50
               else if s = ''Medium'' then 30
               else if s = ''Low'' then 10
               else 30)
      | _ \<Rightarrow> Inr 30)"

text \<open>Line 175: \<open>final_score = rule_score + ai_points\<close>.\<close>

definition combine :: "int \<Rightarrow> json \<Rightarrow> py_error + int" where
  "combine rule_score intent =
     (case ai_points intent of
        Inl e \<Rightarrow> Inl e
      | Inr points \<Rightarrow> Inr (rule_score + points))"

text \<open>One entry of \<open>RESULTS\<close> (lines 177 to 184).\<close>

record scored_lead =
  sl_name :: pyval
  sl_role :: pyval
  sl_company :: pyval
  sl_intent :: json
  sl_score :: int
  sl_reasoning :: json

text \<open>The body of the loop (lines 166 to 184) for one row.\<close>

definition score_one ::
  "json_parser \<Rightarrow> client option \<Rightarrow> offer_dict \<Rightarrow> lead \<Rightarrow> py_error + scored_lead" where
  "score_one json_loads client offer lead_dict =
     (case rule_based_score lead_dict offer of
        Inl e \<Rightarrow> Inl e
      | Inr rule_score \<Rightarrow>
          (case ai_score_and_reason json_loads client lead_dict offer of
             Inl e \<Rightarrow> Inl e
           | Inr ai_data \<Rightarrow>
               (let intent = (case map_of ai_data ''intent'' of
                                None \<Rightarrow> JStr ''Medium'' | Some v \<Rightarrow> v);
                    reasoning = (case map_of ai_data ''reasoning'' of
                                   None \<Rightarrow> JStr '''' | Some v \<Rightarrow> v)
                in case combine rule_score intent of
                     Inl e \<Rightarrow> Inl e
                   | Inr final_score \<Rightarrow>
                       Inr \<lparr>sl_name = dict_get lead_dict ''name'' PyNone,
                            sl_role = dict_get lead_dict ''role'' PyNone,
                            sl_company = dict_get lead_dict ''company'' PyNone,
                            sl_intent = intent,
                            sl_score = final_score,
                            sl_reasoning = reasoning\<rparr>)))"

text \<open>
  The loop over the rows, on the list \<open>RESULTS\<close> it appends to. An exception leaves the
  loop with the entries appended so far.
\<close>

fun score_loop ::
  "json_parser \<Rightarrow> client option \<Rightarrow> offer_dict \<Rightarrow> lead list \<Rightarrow> scored_lead list
     \<Rightarrow> py_error option \<times> scored_lead list" where
  "score_loop json_loads client offer [] results = (None, results)"
| "score_loop json_loads client offer (lead_dict # rest) results =
     (case score_one json_loads client offer lead_dict of
        Inl e \<Rightarrow> (Some e, results)
      | Inr entry \<Rightarrow> score_loop json_loads client offer rest (results @ [entry]))"

text \<open>
  The three module-level variables. \<open>LEADS_DF\<close> is None or the rows of the uploaded
  table, each as the dict \<open>row.to_dict()\<close> gives.
\<close>

record session =
  OFFER_DATA :: offer_dict
  LEADS_DF :: "lead list option"
  RESULTS :: "scored_lead list"

definition precondition_error :: py_error where
  "precondition_error = HTTPException 400 ''Please upload both offer and leads first.''"

text \<open>
  \<open>score_leads\<close> (lines 159 to 186): the reply, or the exception, and the variables
  afterwards.
\<close>

definition score_leads ::
  "json_parser \<Rightarrow> client option \<Rightarrow> session \<Rightarrow> (py_error + scored_lead list) \<times> session" where
  "score_leads json_loads client s =
     (case LEADS_DF s of
        None \<Rightarrow> (Inl precondition_error, s)
      | Some rows \<Rightarrow>
          if \<not> offer_truthy (OFFER_DATA s) then (Inl precondition_error, s)
          else
            (case score_loop json_loads client (OFFER_DATA s) rows [] of
               (Some e, results) \<Rightarrow> (Inl e, s\<lparr>RESULTS := results\<rparr>)
             | (None, results) \<Rightarrow> (Inr results, s\<lparr>RESULTS := results\<rparr>)))"

section \<open>Example inputs\<close>

text \<open>
  The inputs the closed examples below are evaluated at: a complete lead, leads with
  a role only, rows with a blank cell, offers, sessions, a service that gives the
  same outcome on every call, and the values of \<open>json.loads\<close> on a few reply texts
  (any other text stands for one that \<open>json.loads\<close> rejects).
\<close>

definition example_lead :: lead where
  "example_lead =
     [''name'' \<mapsto> PyStr ''A'', ''role'' \<mapsto> PyStr ''VP Sales'',
      ''company'' \<mapsto> PyStr ''Acme'', ''industry'' \<mapsto> PyStr ''Finance'',
      ''location'' \<mapsto> PyStr ''NY'', ''linkedin_bio'' \<mapsto> PyStr ''bio'']"

definition manager_lead :: lead where
  "manager_lead = [''role'' \<mapsto> PyStr ''Sales Manager'']"

definition head_lead :: lead where
  "head_lead = [''role'' \<mapsto> PyStr ''Head of Lead Generation'']"

text \<open>
  Rows of an uploaded CSV with one cell left blank: \<open>pd.read_csv\<close> (line 79) reads a
  blank cell as NaN, and \<open>row.to_dict()\<close> (line 166) keeps it, a float whose \<open>str\<close> is
  \<open>nan\<close> and whose truth value is True.
\<close>

definition blank_location_lead :: lead where
  "blank_location_lead = example_lead(''location'' \<mapsto> PyNum ''nan'' True)"

definition blank_industry_lead :: lead where
  "blank_industry_lead = example_lead(''industry'' \<mapsto> PyNum ''nan'' True)"

definition example_offer :: offer where
  "example_offer =
     \<lparr>offer_name = ''X'', value_props = [''a''], ideal_use_cases = [''finance software'']\<rparr>"

definition offer_retail :: offer where
  "offer_retail =
     \<lparr>offer_name = ''X'', value_props = [''a''],
      ideal_use_cases = [''finance software'', ''retail'']\<rparr>"

definition offer_health :: offer where
  "offer_health =
     \<lparr>offer_name = ''Y'', value_props = [],
      ideal_use_cases = [''finance software'', ''health'', ''finance'']\<rparr>"

definition offer_blank :: offer where
  "offer_blank =
     \<lparr>offer_name = ''X'', value_props = [''a''], ideal_use_cases = ['''', ''finance'']\<rparr>"

definition offer_erp :: offer where
  "offer_erp =
     \<lparr>offer_name = ''X'', value_props = [''a''], ideal_use_cases = [''an erp'']\<rparr>"

definition fixed_service :: "completion \<Rightarrow> client" where
  "fixed_service outcome = (\<lambda>lead offer. outcome)"

definition sample_loads :: json_parser where
  \<open>sample_loads =
     map_of
       [(''{"intent": "High", "reasoning": "Senior buyer."}'',
           JObj [(''intent'', JStr ''High''), (''reasoning'', JStr ''Senior buyer.'')]),
        (''{"intent": "Very High", "reasoning": 7}'',
           JObj [(''intent'', JStr ''Very High''), (''reasoning'', JNum ''7'')]),
        (''{"intent": ["High"], "reasoning": "x"}'',
           JObj [(''intent'', JArr [JStr ''High'']), (''reasoning'', JStr ''x'')]),
        (''{"intent": "High"}'',
           JObj [(''intent'', JStr ''High'')]),
        (''["High", "ok"]'',
           JArr [JStr ''High'', JStr ''ok''])]\<close>

text \<open>A reply wrapped in a markdown fence, each line ended by a line feed.\<close>

definition fenced_reply :: string where
  \<open>fenced_reply =
     ''```json'' @ [CHR 0x0A] @
     ''{"intent": "High", "reasoning": "Senior buyer."}'' @ [CHR 0x0A] @
     ''```'' @ [CHR 0x0A]\<close>

definition example_entry :: scored_lead where
  "example_entry =
     \<lparr>sl_name = PyStr ''A'', sl_role = PyStr ''VP Sales'', sl_company = PyStr ''Acme'',
      sl_intent = JStr ''Medium'', sl_score = 70,
      sl_reasoning = JStr ''AI not configured; using default reasoning.''\<rparr>"

definition fresh_session :: session where
  "fresh_session = \<lparr>OFFER_DATA = None, LEADS_DF = None, RESULTS = []\<rparr>"

definition scored_session :: session where
  "scored_session =
     \<lparr>OFFER_DATA = Some example_offer, LEADS_DF = Some [example_lead],
      RESULTS = [example_entry]\<rparr>"

section \<open>Lemmas\<close>

subsection \<open>Strings\<close>

lemma str_in_sublist: "str_in k s = sublist k s"
  by (induction s) (simp_all add: sublist_Cons_right)

lemma str_in_Nil [simp]: "str_in [] s"
  by (simp add: str_in_sublist)

lemma py_lower_Nil [simp]: "py_lower [] = []"
  by (simp add: py_lower_def)

lemma list_ex_str_in: "list_ex (\<lambda>k. str_in k s) ks = (\<exists>k \<in> set ks. sublist k s)"
  by (simp add: list_ex_iff str_in_sublist)

lemma lower_examples:
  "py_lower ''VP Sales'' = ''vp sales''"
  "py_lower ''Sales Manager'' = ''sales manager''"
  "py_lower ''Head of Lead Generation'' = ''head of lead generation''"
  by (simp_all add: py_lower_def lower_chr_def char_of_def bit_Suc_0_iff)

subsection \<open>The three amounts of the rule-based score\<close>

lemma seniority_points_range: "seniority_points lead \<in> {0, 10, 20}"
  by (simp add: seniority_points_def Let_def)

lemma icp_points_range: "icp_points icp industry \<in> {0, 10, 20}"
  by (simp add: icp_points_def)

lemma completeness_points_range: "completeness_points lead \<in> {0, 10}"
  by (simp add: completeness_points_def)

text \<open>The two guards of line 96 keep both subscripts of line 97 from raising.\<close>

lemma industry_points_cases:
  "industry_points lead offer =
     (case offer of
        None \<Rightarrow> Inr 0
      | Some off \<Rightarrow>
          (case ideal_use_cases off of
             [] \<Rightarrow> Inr 0
           | first # rest \<Rightarrow> Inr (icp_points (py_lower first) (industry_text lead))))"
  by (simp add: industry_points_def offer_truthy_def get_use_cases_truthy_def
      subscript_use_cases_def subscript0_def Let_def split: option.splits list.splits)

lemma industry_points_total:
  "\<exists>ind. industry_points lead offer = Inr ind \<and> ind \<in> {0, 10, 20}"
  using icp_points_range
  by (simp add: industry_points_cases split: option.splits list.splits)

text \<open>The score is the sum of what the three blocks add.\<close>

lemma rule_based_score_sum:
  "rule_based_score lead offer =
     (case industry_points lead offer of
        Inl e \<Rightarrow> Inl e
      | Inr ind \<Rightarrow> Inr (seniority_points lead + ind + completeness_points lead))"
proof (cases offer)
  case None
  then show ?thesis
    by (simp add: rule_based_score_def industry_points_def seniority_points_def
        completeness_points_def role_text_def tier_a_def tier_b_def required_cols_def
        offer_truthy_def Let_def)
next
  case (Some off)
  show ?thesis
  proof (cases "ideal_use_cases off")
    case Nil
    with Some show ?thesis
      by (simp add: rule_based_score_def industry_points_def seniority_points_def
          completeness_points_def role_text_def tier_a_def tier_b_def required_cols_def
          offer_truthy_def get_use_cases_truthy_def Let_def)
  next
    case (Cons first rest)
    with Some show ?thesis
      by (simp add: rule_based_score_def industry_points_def seniority_points_def
          completeness_points_def icp_points_def role_text_def industry_text_def tier_a_def
          tier_b_def required_cols_def offer_truthy_def get_use_cases_truthy_def
          subscript_use_cases_def subscript0_def Let_def)
  qed
qed

lemma rule_based_score_parts:
  "\<exists>ind. industry_points lead offer = Inr ind \<and> ind \<in> {0, 10, 20} \<and>
     rule_based_score lead offer =
       Inr (seniority_points lead + ind + completeness_points lead)"
  using industry_points_total [of lead offer] by (auto simp: rule_based_score_sum)

text \<open>
  The score always returns, and lies between 0 and 50: the guards of line 96 keep the
  subscripts of line 97 from raising, and the three blocks add at most 20, 20 and 10.
\<close>

lemma rule_based_score_range:
  "\<exists>score. rule_based_score lead offer = Inr score \<and> 0 \<le> score \<and> score \<le> 50"
proof -
  obtain ind where ind: "ind \<in> {0, 10, 20}"
    and score: "rule_based_score lead offer =
      Inr (seniority_points lead + ind + completeness_points lead)"
    using rule_based_score_parts [of lead offer] by blast
  have "seniority_points lead \<in> {0, 10, 20}" "completeness_points lead \<in> {0, 10}"
    by (rule seniority_points_range, rule completeness_points_range)
  with ind have "0 \<le> seniority_points lead + ind + completeness_points lead"
    "seniority_points lead + ind + completeness_points lead \<le> 50"
    by auto
  with score show ?thesis by simp
qed

text \<open>
  A key that is absent from the lead dict counts as the empty string: putting the empty
  string there changes nothing (the defaults of lines 89, 95 and 103).
\<close>

lemma absent_key_as_empty:
  assumes "lead col = None"
  shows "rule_based_score (lead(col \<mapsto> PyStr '''')) offer = rule_based_score lead offer"
proof -
  have g: "dict_get (lead(col \<mapsto> PyStr '''')) k (PyStr '''') = dict_get lead k (PyStr '''')"
    for k
    using assms by (simp add: dict_get_def)
  have t: "truthy (dict_get (lead(col \<mapsto> PyStr '''')) k PyNone) =
      truthy (dict_get lead k PyNone)" for k
    using assms by (simp add: dict_get_def)
  show ?thesis
    unfolding rule_based_score_def g t ..
qed

text \<open>
  The completeness bonus in terms of Python's truth values: 10 when each of the six
  columns has a cell that is true, 0 when one of them is absent or has a cell that is
  false (None, the empty string, zero, False). NaN is a true value.
\<close>

lemma completeness_truthiness:
  "((\<forall>col \<in> {''name'', ''role'', ''company'', ''industry'', ''location'', ''linkedin_bio''}.
        \<exists>v. lead col = Some v \<and> truthy v)
      \<longrightarrow> completeness_points lead = 10) \<and>
   ((\<exists>col \<in> {''name'', ''role'', ''company'', ''industry'', ''location'', ''linkedin_bio''}.
        lead col = None \<or> (\<exists>v. lead col = Some v \<and> \<not> truthy v))
      \<longrightarrow> completeness_points lead = 0)"
proof -
  have cols: "set required_cols =
      {''name'', ''role'', ''company'', ''industry'', ''location'', ''linkedin_bio''}"
    by (simp add: required_cols_def)
  have t: "truthy (dict_get lead col PyNone) = (\<exists>v. lead col = Some v \<and> truthy v)" for col
    by (cases "lead col") (simp_all add: dict_get_def)
  have all: "list_all (\<lambda>col. truthy (dict_get lead col PyNone)) required_cols =
      (\<forall>col \<in> {''name'', ''role'', ''company'', ''industry'', ''location'', ''linkedin_bio''}.
        \<exists>v. lead col = Some v \<and> truthy v)"
    unfolding list_all_iff cols t ..
  have 1: "(\<forall>col \<in> {''name'', ''role'', ''company'', ''industry'', ''location'', ''linkedin_bio''}.
        \<exists>v. lead col = Some v \<and> truthy v) \<longrightarrow> completeness_points lead = 10"
    unfolding completeness_points_def all by simp
  have 2: "(\<exists>col \<in> {''name'', ''role'', ''company'', ''industry'', ''location'', ''linkedin_bio''}.
        lead col = None \<or> (\<exists>v. lead col = Some v \<and> \<not> truthy v))
      \<longrightarrow> completeness_points lead = 0"
    unfolding completeness_points_def all by auto
  from 1 2 show ?thesis by blast
qed

subsection \<open>The end-to-end example: 20 + 10 + 10 = 40, and 70 with the default intent\<close>

lemma example_role: "role_text example_lead = ''vp sales''"
  by (simp add: role_text_def example_lead_def dict_get_def py_lower_def lower_chr_def char_of_def bit_Suc_0_iff)

lemma example_industry: "industry_text example_lead = ''finance''"
  by (simp add: industry_text_def example_lead_def dict_get_def py_lower_def lower_chr_def char_of_def bit_Suc_0_iff)

lemma example_seniority: "seniority_points example_lead = 20"
  by (simp add: seniority_points_def example_role tier_a_def)

lemma example_completeness: "completeness_points example_lead = 10"
  by (simp add: completeness_points_def required_cols_def example_lead_def dict_get_def)

lemma split_finance: "py_split ''finance software'' = [''finance'', ''software'']"
  by (simp add: py_split_def is_space_def)

lemma example_industry_points: "industry_points example_lead (Some example_offer) = Inr 10"
  by (simp add: industry_points_cases example_offer_def example_industry icp_points_def
      py_lower_def lower_chr_def char_of_def bit_Suc_0_iff split_finance)

lemma example_score: "rule_based_score example_lead (Some example_offer) = Inr 40"
  by (simp add: rule_based_score_sum example_industry_points example_seniority
      example_completeness)

lemma example_cells:
  "dict_get example_lead ''name'' PyNone = PyStr ''A''"
  "dict_get example_lead ''role'' PyNone = PyStr ''VP Sales''"
  "dict_get example_lead ''company'' PyNone = PyStr ''Acme''"
  by (simp_all add: dict_get_def example_lead_def)

lemma score_one_example:
  "score_one json_loads None (Some example_offer) example_lead = Inr example_entry"
  by (simp add: score_one_def example_score ai_score_and_reason_def not_configured_def
      combine_def ai_points_def example_entry_def example_cells)

lemma score_example_batch:
  "score_leads json_loads None (scored_session\<lparr>RESULTS := old\<rparr>) =
     (Inr [example_entry], scored_session)"
  by (simp add: score_leads_def scored_session_def offer_truthy_def score_one_example)

subsection \<open>Rows with a blank cell\<close>

lemma blank_location_cells:
  "blank_location_lead ''location'' = Some (PyNum ''nan'' True)"
  "role_text blank_location_lead = ''vp sales''"
  "industry_text blank_location_lead = ''finance''"
  by (simp_all add: blank_location_lead_def role_text_def industry_text_def dict_get_def
      example_lead_def py_lower_def lower_chr_def char_of_def bit_Suc_0_iff)

lemma blank_location_completeness: "completeness_points blank_location_lead = 10"
  by (simp add: completeness_points_def required_cols_def blank_location_lead_def
      example_lead_def dict_get_def)

lemma blank_industry_text: "industry_text blank_industry_lead = ''nan''"
  by (simp add: blank_industry_lead_def industry_text_def dict_get_def
      py_lower_def lower_chr_def char_of_def bit_Suc_0_iff)

lemma split_erp: "py_split ''an erp'' = [''an'', ''erp'']"
  by (simp add: py_split_def is_space_def)

subsection \<open>The classifier\<close>

lemma map_of_fallbacks:
  "map_of not_configured ''intent'' = Some (JStr ''Medium'')"
  "map_of not_configured ''reasoning'' =
     Some (JStr ''AI not configured; using default reasoning.'')"
  "map_of error_fallback ''intent'' = Some (JStr ''Medium'')"
  "map_of error_fallback ''reasoning'' = Some (JStr ''Default reasoning due to AI error.'')"
  by (simp_all add: not_configured_def error_fallback_def)

text \<open>The \<open>try\<close> block returns exactly when the first choice parses to an object with both keys.\<close>

lemma ai_try_Inr:
  "ai_try json_loads response = Inr d \<longleftrightarrow>
     (\<exists>c rest. response = Choices (Some c # rest) \<and>
        json_loads (clean_text c) = Some (JObj d) \<and>
        map_of d ''intent'' \<noteq> None \<and> map_of d ''reasoning'' \<noteq> None)"
  by (auto simp: ai_try_def subscript0_def
      split: completion.splits list.splits option.splits json.splits)

lemma clean_fenced:
  \<open>clean_text fenced_reply = ''{"intent": "High", "reasoning": "Senior buyer."}''\<close>
  by (simp add: clean_text_def fenced_reply_def py_strip_def is_space_def py_replace.simps)

lemma sample_loads_fenced:
  "sample_loads (clean_text fenced_reply) =
     Some (JObj [(''intent'', JStr ''High''), (''reasoning'', JStr ''Senior buyer.'')])"
  by (simp add: clean_fenced sample_loads_def)

lemma sample_loads_values:
  \<open>sample_loads (clean_text ''not json'') = None\<close>
  \<open>sample_loads (clean_text ''["High", "ok"]'') = Some (JArr [JStr ''High'', JStr ''ok''])\<close>
  \<open>sample_loads (clean_text ''{"intent": "High"}'') = Some (JObj [(''intent'', JStr ''High'')])\<close>
  \<open>sample_loads (clean_text ''{"intent": ["High"], "reasoning": "x"}'') =
     Some (JObj [(''intent'', JArr [JStr ''High'']), (''reasoning'', JStr ''x'')])\<close>
  \<open>sample_loads (clean_text ''{"intent": "Very High", "reasoning": 7}'') =
     Some (JObj [(''intent'', JStr ''Very High''), (''reasoning'', JNum ''7'')])\<close>
  by (simp_all add: sample_loads_def clean_text_def py_strip_def is_space_def)

subsection \<open>The points of an intent\<close>

text \<open>
  On every value that can be hashed the lookup of line 174 gives the points of the three
  labels and 30 for anything else, and line 175 adds them with no clamp.
\<close>

lemma combine_hashable:
  "combine rule_score (JStr ''High'') = Inr (rule_score + 50)"
  "combine rule_score (JStr ''Medium'') = Inr (rule_score + 30)"
  "combine rule_score (JStr ''Low'') = Inr (rule_score + 10)"
  "s \<notin> {''High'', ''Medium'', ''Low''} \<Longrightarrow> combine rule_score (JStr s) = Inr (rule_score + 30)"
  "combine rule_score JNull = Inr (rule_score + 30)"
  "combine rule_score (JBool b) = Inr (rule_score + 30)"
  "combine rule_score (JNum n) = Inr (rule_score + 30)"
  by (simp_all add: combine_def ai_points_def)

lemma combine_examples:
  "combine 20 (JStr ''High'') = Inr 70"
  "combine 0 (JStr ''Low'') = Inr 10"
  "combine 10 (JStr ''Unknown'') = Inr 40"
  by (simp_all add: combine_def ai_points_def)

lemma combine_unhashable:
  "combine rule_score (JArr xs) = Inl TypeError"
  "combine rule_score (JObj d) = Inl TypeError"
  by (simp_all add: combine_def ai_points_def)

section \<open>The claims\<close>

subsection \<open>The session\<close>

text \<open>
  C1, as the code has it. The guard of line 161 tests \<open>LEADS_DF is None\<close> and
  \<open>not OFFER_DATA\<close>: when no offer or no lead batch has been uploaded, \<open>score_leads\<close>
  raises the HTTP 400 error and leaves the three variables, the results among them, as
  they were. A batch that was uploaded with no rows passes the guard: with an offer
  present the pass succeeds and replaces the results by the empty list.
\<close>

theorem score_precondition:
  "(OFFER_DATA s = None \<or> LEADS_DF s = None \<longrightarrow>
      score_leads json_loads client s =
        (Inl (HTTPException 400 ''Please upload both offer and leads first.''), s)) \<and>
   (OFFER_DATA s \<noteq> None \<and> LEADS_DF s = Some [] \<longrightarrow>
      score_leads json_loads client s = (Inr [], s\<lparr>RESULTS := []\<rparr>))"
  by (auto simp: score_leads_def precondition_error_def offer_truthy_def split: option.splits)

theorem score_precondition_witness:
  "score_leads sample_loads None fresh_session =
     (Inl (HTTPException 400 ''Please upload both offer and leads first.''), fresh_session) \<and>
   score_leads sample_loads None (scored_session\<lparr>LEADS_DF := None\<rparr>) =
     (Inl (HTTPException 400 ''Please upload both offer and leads first.''),
      scored_session\<lparr>LEADS_DF := None\<rparr>) \<and>
   score_leads sample_loads None (scored_session\<lparr>OFFER_DATA := None\<rparr>) =
     (Inl (HTTPException 400 ''Please upload both offer and leads first.''),
      scored_session\<lparr>OFFER_DATA := None\<rparr>) \<and>
   score_leads sample_loads None
       (fresh_session\<lparr>OFFER_DATA := Some example_offer, LEADS_DF := Some []\<rparr>) =
     (Inr [],
      fresh_session\<lparr>OFFER_DATA := Some example_offer, LEADS_DF := Some [], RESULTS := []\<rparr>)"
proof -
  have 1: "OFFER_DATA fresh_session = None \<or> LEADS_DF fresh_session = None"
    by (simp add: fresh_session_def)
  have 2: "OFFER_DATA (scored_session\<lparr>LEADS_DF := None\<rparr>) = None \<or>
           LEADS_DF (scored_session\<lparr>LEADS_DF := None\<rparr>) = None"
    by simp
  have 3: "OFFER_DATA (scored_session\<lparr>OFFER_DATA := None\<rparr>) = None \<or>
           LEADS_DF (scored_session\<lparr>OFFER_DATA := None\<rparr>) = None"
    by simp
  have 4: "OFFER_DATA (fresh_session\<lparr>OFFER_DATA := Some example_offer, LEADS_DF := Some []\<rparr>)
             \<noteq> None \<and>
           LEADS_DF (fresh_session\<lparr>OFFER_DATA := Some example_offer, LEADS_DF := Some []\<rparr>)
             = Some []"
    by simp
  from score_precondition [of fresh_session sample_loads None] 1
    score_precondition [of "scored_session\<lparr>LEADS_DF := None\<rparr>" sample_loads None] 2
    score_precondition [of "scored_session\<lparr>OFFER_DATA := None\<rparr>" sample_loads None] 3
    score_precondition
      [of "fresh_session\<lparr>OFFER_DATA := Some example_offer, LEADS_DF := Some []\<rparr>"
        sample_loads None] 4
  show ?thesis by blast
qed

text \<open>
  C1 as it is stated fails on an empty batch: after one scored lead, an upload with no
  rows and a second pass, the pass returns the empty list, not an error, and the
  results are no longer the ones of the first pass.
\<close>

theorem empty_batch_is_scored:
  "OFFER_DATA (scored_session\<lparr>LEADS_DF := Some []\<rparr>) = Some example_offer \<and>
   LEADS_DF (scored_session\<lparr>LEADS_DF := Some []\<rparr>) = Some [] \<and>
   RESULTS (scored_session\<lparr>LEADS_DF := Some []\<rparr>) = [example_entry] \<and>
   score_leads sample_loads None (scored_session\<lparr>LEADS_DF := Some []\<rparr>) =
     (Inr [], scored_session\<lparr>LEADS_DF := Some [], RESULTS := []\<rparr>) \<and>
   RESULTS (snd (score_leads sample_loads None (scored_session\<lparr>LEADS_DF := Some []\<rparr>))) \<noteq>
     RESULTS (scored_session\<lparr>LEADS_DF := Some []\<rparr>)"
  by (simp add: score_leads_def scored_session_def offer_truthy_def)

subsection \<open>The intent classifier\<close>

text \<open>
  C2, as the code has it. For every lead, every offer, every parser and every behaviour
  of the service, \<open>ai_score_and_reason\<close> raises nothing and returns a dict that has the
  keys \<open>intent\<close> and \<open>reasoning\<close>. The dict is one of the two fixed answers (intent
  Medium, a fixed reasoning) or the object parsed from the first choice of the reply;
  the two values of that object are returned as they are.
\<close>

theorem ai_result_shape:
  "\<exists>d. ai_score_and_reason json_loads client lead offer = Inr d \<and>
      map_of d ''intent'' \<noteq> None \<and> map_of d ''reasoning'' \<noteq> None \<and>
      (d = not_configured \<or> d = error_fallback \<or>
       (\<exists>service c rest. client = Some service \<and>
          service lead offer = Choices (Some c # rest) \<and>
          json_loads (clean_text c) = Some (JObj d)))"
proof (cases client)
  case None
  then show ?thesis
    by (simp add: ai_score_and_reason_def map_of_fallbacks)
next
  case (Some service)
  show ?thesis
  proof (cases "ai_try json_loads (service lead offer)")
    case (Inl e)
    with Some show ?thesis
      by (simp add: ai_score_and_reason_def map_of_fallbacks)
  next
    case (Inr d)
    then obtain c rest where "service lead offer = Choices (Some c # rest)"
      "json_loads (clean_text c) = Some (JObj d)"
      "map_of d ''intent'' \<noteq> None" "map_of d ''reasoning'' \<noteq> None"
      unfolding ai_try_Inr by blast
    with Some Inr show ?thesis
      by (simp add: ai_score_and_reason_def)
  qed
qed

theorem ai_result_shape_witness:
  "ai_score_and_reason sample_loads (Some (fixed_service (Choices [Some fenced_reply])))
     example_lead (Some example_offer) =
     Inr [(''intent'', JStr ''High''), (''reasoning'', JStr ''Senior buyer.'')] \<and>
   (\<exists>d. ai_score_and_reason sample_loads (Some (fixed_service (Choices [Some fenced_reply])))
          example_lead (Some example_offer) = Inr d \<and>
        map_of d ''intent'' \<noteq> None \<and> map_of d ''reasoning'' \<noteq> None)"
proof -
  have "ai_score_and_reason sample_loads (Some (fixed_service (Choices [Some fenced_reply])))
     example_lead (Some example_offer) =
     Inr [(''intent'', JStr ''High''), (''reasoning'', JStr ''Senior buyer.'')]"
    by (simp add: ai_score_and_reason_def ai_try_def fixed_service_def subscript0_def
        sample_loads_fenced)
  moreover have
    "\<exists>d. ai_score_and_reason sample_loads (Some (fixed_service (Choices [Some fenced_reply])))
          example_lead (Some example_offer) = Inr d \<and>
        map_of d ''intent'' \<noteq> None \<and> map_of d ''reasoning'' \<noteq> None"
    using ai_result_shape [of sample_loads "Some (fixed_service (Choices [Some fenced_reply]))"
        example_lead "Some example_offer"] by blast
  ultimately show ?thesis by blast
qed

text \<open>
  C2 as it is stated fails: a reply whose object has both keys is returned whatever its
  values are. Here the intent is the string \<open>Very High\<close>, none of the three labels, and
  the reasoning is the number 7, not a string.
\<close>

theorem ai_intent_unvalidated:
  \<open>ai_score_and_reason sample_loads
     (Some (fixed_service (Choices [Some ''{"intent": "Very High", "reasoning": 7}''])))
     example_lead (Some example_offer) =
     Inr [(''intent'', JStr ''Very High''), (''reasoning'', JNum ''7'')] \<and>
   JStr ''Very High'' \<notin> {JStr ''High'', JStr ''Medium'', JStr ''Low''} \<and>
   JNum ''7'' \<notin> range JStr\<close>
  by (auto simp: ai_score_and_reason_def ai_try_def fixed_service_def subscript0_def
      sample_loads_values)

text \<open>
  C8: with no credential in the environment there is no client, and for every lead,
  offer, parser and service the classifier returns the fixed dict of line 114, intent
  Medium and reasoning \<open>AI not configured; using default reasoning.\<close>; the service
  takes no part in the result.
\<close>

theorem not_configured_fallback:
  "init_client None service = None \<and>
   ai_score_and_reason json_loads (init_client None service) lead offer =
     Inr [(''intent'', JStr ''Medium''),
          (''reasoning'', JStr ''AI not configured; using default reasoning.'')]"
  by (simp add: init_client_def ai_score_and_reason_def not_configured_def)

theorem not_configured_fallback_witness:
  "ai_score_and_reason sample_loads (init_client None (fixed_service ServiceRaises))
     example_lead (Some example_offer) =
     Inr [(''intent'', JStr ''Medium''),
          (''reasoning'', JStr ''AI not configured; using default reasoning.'')]"
  using not_configured_fallback
    [of "fixed_service ServiceRaises" sample_loads example_lead "Some example_offer"]
  by (rule conjunct2)

text \<open>
  C9: with a client, whenever the call or the handling of its reply fails, the
  classifier returns the fixed dict of line 153, intent Medium and reasoning
  \<open>Default reasoning due to AI error.\<close>, and raises nothing. The failures are: the
  service raises; the reply has no choice; the content of the first choice is None; the
  cleaned text does not parse; it parses to a value that is not an object; the object
  lacks the key \<open>intent\<close> or the key \<open>reasoning\<close>.
\<close>

theorem ai_failure_fallback:
  assumes "service lead offer = ServiceRaises \<or>
           service lead offer = Choices [] \<or>
           (\<exists>rest. service lead offer = Choices (None # rest)) \<or>
           (\<exists>c rest. service lead offer = Choices (Some c # rest) \<and>
              (json_loads (clean_text c) = None \<or>
               (\<exists>v. json_loads (clean_text c) = Some v \<and> (\<forall>d. v \<noteq> JObj d)) \<or>
               (\<exists>d. json_loads (clean_text c) = Some (JObj d) \<and>
                  (map_of d ''intent'' = None \<or> map_of d ''reasoning'' = None))))"
  shows "ai_score_and_reason json_loads (Some service) lead offer =
           Inr [(''intent'', JStr ''Medium''),
                (''reasoning'', JStr ''Default reasoning due to AI error.'')]"
proof -
  have "\<not> (\<exists>d. ai_try json_loads (service lead offer) = Inr d)"
    unfolding ai_try_Inr using assms by auto
  then obtain e where "ai_try json_loads (service lead offer) = Inl e"
    by (cases "ai_try json_loads (service lead offer)") auto
  then show ?thesis
    by (simp add: ai_score_and_reason_def error_fallback_def)
qed

theorem ai_failure_fallback_witness:
  \<open>ai_score_and_reason sample_loads (Some (fixed_service ServiceRaises))
       example_lead (Some example_offer) = Inr error_fallback \<and>
   ai_score_and_reason sample_loads (Some (fixed_service (Choices [])))
       example_lead (Some example_offer) = Inr error_fallback \<and>
   ai_score_and_reason sample_loads (Some (fixed_service (Choices [None])))
       example_lead (Some example_offer) = Inr error_fallback \<and>
   sample_loads (clean_text ''not json'') = None \<and>
   ai_score_and_reason sample_loads (Some (fixed_service (Choices [Some ''not json''])))
       example_lead (Some example_offer) = Inr error_fallback \<and>
   sample_loads (clean_text ''["High", "ok"]'') = Some (JArr [JStr ''High'', JStr ''ok'']) \<and>
   ai_score_and_reason sample_loads (Some (fixed_service (Choices [Some ''["High", "ok"]''])))
       example_lead (Some example_offer) = Inr error_fallback \<and>
   sample_loads (clean_text ''{"intent": "High"}'') = Some (JObj [(''intent'', JStr ''High'')]) \<and>
   ai_score_and_reason sample_loads (Some (fixed_service (Choices [Some ''{"intent": "High"}''])))
       example_lead (Some example_offer) = Inr error_fallback\<close>
proof -
  note fb = error_fallback_def
  have 1: "ai_score_and_reason sample_loads (Some (fixed_service ServiceRaises))
       example_lead (Some example_offer) = Inr error_fallback"
    unfolding fb by (rule ai_failure_fallback) (simp add: fixed_service_def)
  have 2: "ai_score_and_reason sample_loads (Some (fixed_service (Choices [])))
       example_lead (Some example_offer) = Inr error_fallback"
    unfolding fb by (rule ai_failure_fallback) (simp add: fixed_service_def)
  have 3: "ai_score_and_reason sample_loads (Some (fixed_service (Choices [None])))
       example_lead (Some example_offer) = Inr error_fallback"
    unfolding fb by (rule ai_failure_fallback) (simp add: fixed_service_def)
  have 4: "ai_score_and_reason sample_loads (Some (fixed_service (Choices [Some ''not json''])))
       example_lead (Some example_offer) = Inr error_fallback"
    unfolding fb
    by (rule ai_failure_fallback) (simp add: fixed_service_def sample_loads_values)
  have 5: \<open>ai_score_and_reason sample_loads
       (Some (fixed_service (Choices [Some ''["High", "ok"]''])))
       example_lead (Some example_offer) = Inr error_fallback\<close>
    unfolding fb
    by (rule ai_failure_fallback) (simp add: fixed_service_def sample_loads_values)
  have 6: \<open>ai_score_and_reason sample_loads
       (Some (fixed_service (Choices [Some ''{"intent": "High"}''])))
       example_lead (Some example_offer) = Inr error_fallback\<close>
    unfolding fb
    by (rule ai_failure_fallback) (simp add: fixed_service_def sample_loads_values)
  from 1 2 3 4 5 6 sample_loads_values show ?thesis by simp
qed

subsection \<open>The rule-based score\<close>

text \<open>
  C3: the industry points read only entry 0 of \<open>ideal_use_cases\<close>. For every lead, two
  offers whose lists start with the same entry get the same rule-based score, whatever
  the later entries (and the other two fields of the offers) are.
\<close>

theorem first_use_case_only:
  assumes "ideal_use_cases o1 = first # rest1" and "ideal_use_cases o2 = first # rest2"
  shows "rule_based_score lead (Some o1) = rule_based_score lead (Some o2)"
  using assms by (simp add: rule_based_score_sum industry_points_cases)

theorem first_use_case_only_witness:
  "ideal_use_cases offer_retail = ''finance software'' # [''retail''] \<and>
   ideal_use_cases offer_health = ''finance software'' # [''health'', ''finance''] \<and>
   rule_based_score example_lead (Some offer_retail) =
     rule_based_score example_lead (Some offer_health)"
proof -
  have a: "ideal_use_cases offer_retail = ''finance software'' # [''retail'']"
    by (simp add: offer_retail_def)
  have b: "ideal_use_cases offer_health = ''finance software'' # [''health'', ''finance'']"
    by (simp add: offer_health_def)
  from first_use_case_only [OF a b, of example_lead] a b show ?thesis by simp
qed

text \<open>
  C5: the points for the role. When the lowered text of the role cell contains one of
  head, director, vp, founder, ceo, the role adds exactly 20, whatever the other cells
  and the offer are; when it contains one of manager, lead, specialist and none of the
  first five, it adds exactly 10. The role never adds anything but 0, 10 or 20, so the
  two tiers are never added together, and the score is the sum of the role's points,
  the industry's and the completeness bonus.
\<close>

theorem seniority_tiers:
  assumes "lead ''role'' = Some v"
  shows "((\<exists>k \<in> {''head'', ''director'', ''vp'', ''founder'', ''ceo''}.
             sublist k (py_lower (py_str v)))
            \<longrightarrow> seniority_points lead = 20) \<and>
         ((\<exists>k \<in> {''manager'', ''lead'', ''specialist''}. sublist k (py_lower (py_str v))) \<and>
          \<not> (\<exists>k \<in> {''head'', ''director'', ''vp'', ''founder'', ''ceo''}.
                sublist k (py_lower (py_str v)))
            \<longrightarrow> seniority_points lead = 10) \<and>
         seniority_points lead \<in> {0, 10, 20} \<and>
         (\<exists>ind. industry_points lead offer = Inr ind \<and>
            rule_based_score lead offer =
              Inr (seniority_points lead + ind + completeness_points lead))"
proof -
  have r: "role_text lead = py_lower (py_str v)"
    using assms by (simp add: role_text_def dict_get_def)
  have a: "set tier_a = {''head'', ''director'', ''vp'', ''founder'', ''ceo''}"
    by (simp add: tier_a_def)
  have b: "set tier_b = {''manager'', ''lead'', ''specialist''}"
    by (simp add: tier_b_def)
  have 1: "(\<exists>k \<in> {''head'', ''director'', ''vp'', ''founder'', ''ceo''}.
              sublist k (py_lower (py_str v)))
            \<longrightarrow> seniority_points lead = 20"
    unfolding seniority_points_def Let_def list_ex_str_in r a by simp
  have 2: "(\<exists>k \<in> {''manager'', ''lead'', ''specialist''}. sublist k (py_lower (py_str v))) \<and>
          \<not> (\<exists>k \<in> {''head'', ''director'', ''vp'', ''founder'', ''ceo''}.
                sublist k (py_lower (py_str v)))
            \<longrightarrow> seniority_points lead = 10"
    unfolding seniority_points_def Let_def list_ex_str_in r a b by simp
  from 1 2 seniority_points_range [of lead] rule_based_score_parts [of lead offer]
  show ?thesis by blast
qed

theorem seniority_tiers_witness:
  "(\<exists>k \<in> {''head'', ''director'', ''vp'', ''founder'', ''ceo''}.
      sublist k (py_lower (py_str (PyStr ''VP Sales'')))) \<and>
   seniority_points example_lead = 20 \<and>
   (\<exists>k \<in> {''manager'', ''lead'', ''specialist''}.
      sublist k (py_lower (py_str (PyStr ''Sales Manager'')))) \<and>
   \<not> (\<exists>k \<in> {''head'', ''director'', ''vp'', ''founder'', ''ceo''}.
         sublist k (py_lower (py_str (PyStr ''Sales Manager'')))) \<and>
   seniority_points manager_lead = 10 \<and>
   (\<exists>k \<in> {''head'', ''director'', ''vp'', ''founder'', ''ceo''}.
      sublist k (py_lower (py_str (PyStr ''Head of Lead Generation'')))) \<and>
   (\<exists>k \<in> {''manager'', ''lead'', ''specialist''}.
      sublist k (py_lower (py_str (PyStr ''Head of Lead Generation'')))) \<and>
   seniority_points head_lead = 20"
proof -
  have r1: "example_lead ''role'' = Some (PyStr ''VP Sales'')"
    by (simp add: example_lead_def)
  have r2: "manager_lead ''role'' = Some (PyStr ''Sales Manager'')"
    by (simp add: manager_lead_def)
  have r3: "head_lead ''role'' = Some (PyStr ''Head of Lead Generation'')"
    by (simp add: head_lead_def)
  have a1: "\<exists>k \<in> {''head'', ''director'', ''vp'', ''founder'', ''ceo''}.
      sublist k (py_lower (py_str (PyStr ''VP Sales'')))"
    by (simp add: lower_examples str_in_sublist [symmetric])
  have b2: "\<exists>k \<in> {''manager'', ''lead'', ''specialist''}.
      sublist k (py_lower (py_str (PyStr ''Sales Manager'')))"
    by (simp add: lower_examples str_in_sublist [symmetric])
  have a2: "\<not> (\<exists>k \<in> {''head'', ''director'', ''vp'', ''founder'', ''ceo''}.
      sublist k (py_lower (py_str (PyStr ''Sales Manager''))))"
    by (simp add: lower_examples str_in_sublist [symmetric])
  have a3: "\<exists>k \<in> {''head'', ''director'', ''vp'', ''founder'', ''ceo''}.
      sublist k (py_lower (py_str (PyStr ''Head of Lead Generation'')))"
    by (simp add: lower_examples str_in_sublist [symmetric])
  have b3: "\<exists>k \<in> {''manager'', ''lead'', ''specialist''}.
      sublist k (py_lower (py_str (PyStr ''Head of Lead Generation'')))"
    by (simp add: lower_examples str_in_sublist [symmetric])
  from seniority_tiers [of example_lead "PyStr ''VP Sales''" None, OF r1] a1
  have s1: "seniority_points example_lead = 20"
    by blast
  from seniority_tiers [of manager_lead "PyStr ''Sales Manager''" None, OF r2] a2 b2
  have s2: "seniority_points manager_lead = 10"
    by blast
  from seniority_tiers [of head_lead "PyStr ''Head of Lead Generation''" None, OF r3] a3
  have s3: "seniority_points head_lead = 20"
    by blast
  from a1 a2 b2 a3 b3 s1 s2 s3 show ?thesis by blast
qed

text \<open>
  C6 at a row with a blank cell. All six columns are there, and the location cell is
  blank in the CSV, so it is NaN in the lead. NaN is a true value: the test of line 103
  passes and the row earns the bonus of 10, as the complete row does (score 40), where
  the claim gives a lead with an empty value 0. With the empty string or no key in that
  place the bonus is 0.
\<close>

theorem blank_cell_earns_bonus:
  "blank_location_lead ''location'' = Some (PyNum ''nan'' True) \<and>
   completeness_points blank_location_lead = 10 \<and>
   rule_based_score blank_location_lead (Some example_offer) = Inr 40 \<and>
   completeness_points (example_lead(''location'' \<mapsto> PyStr '''')) = 0 \<and>
   completeness_points (example_lead(''location'' := None)) = 0"
proof -
  have s: "seniority_points blank_location_lead = 20"
    by (simp add: seniority_points_def blank_location_cells tier_a_def)
  have i: "industry_points blank_location_lead (Some example_offer) = Inr 10"
    by (simp add: industry_points_cases example_offer_def blank_location_cells icp_points_def
        py_lower_def lower_chr_def char_of_def bit_Suc_0_iff split_finance)
  have score: "rule_based_score blank_location_lead (Some example_offer) = Inr 40"
    by (simp add: rule_based_score_sum s i blank_location_completeness)
  have e: "completeness_points (example_lead(''location'' \<mapsto> PyStr '''')) = 0"
    by (simp add: completeness_points_def required_cols_def dict_get_def)
  have a: "completeness_points (example_lead(''location'' := None)) = 0"
    by (simp add: completeness_points_def required_cols_def dict_get_def)
  from blank_location_cells(1) blank_location_completeness score e a show ?thesis by simp
qed

text \<open>
  C7 at a row with a blank cell. The industry cell is blank in the CSV, so it is NaN in
  the lead, and line 95 reads it as the text \<open>nan\<close>, not as the empty string. With
  the first use case \<open>an erp\<close> the word \<open>an\<close> occurs in \<open>nan\<close> and the industry
  block adds 10, where the claim treats a missing field as empty; with the empty string
  or no key in that place the block adds 0.
\<close>

theorem blank_industry_read_as_text:
  "blank_industry_lead ''industry'' = Some (PyNum ''nan'' True) \<and>
   industry_text blank_industry_lead = ''nan'' \<and>
   industry_points blank_industry_lead (Some offer_erp) = Inr 10 \<and>
   industry_points (example_lead(''industry'' \<mapsto> PyStr '''')) (Some offer_erp) = Inr 0 \<and>
   industry_points (example_lead(''industry'' := None)) (Some offer_erp) = Inr 0"
proof -
  have c: "blank_industry_lead ''industry'' = Some (PyNum ''nan'' True)"
    by (simp add: blank_industry_lead_def)
  have lo: "py_lower ''an erp'' = ''an erp''"
    by (simp add: py_lower_def lower_chr_def char_of_def bit_Suc_0_iff)
  have n: "industry_points blank_industry_lead (Some offer_erp) = Inr 10"
    by (simp add: industry_points_cases offer_erp_def blank_industry_text icp_points_def
        lo split_erp)
  have e: "industry_text (example_lead(''industry'' \<mapsto> PyStr '''')) = []"
    by (simp add: industry_text_def dict_get_def)
  have a: "industry_text (example_lead(''industry'' := None)) = []"
    by (simp add: industry_text_def dict_get_def)
  have e0: "industry_points (example_lead(''industry'' \<mapsto> PyStr '''')) (Some offer_erp) = Inr 0"
    by (simp add: industry_points_cases offer_erp_def e icp_points_def lo split_erp)
  have a0: "industry_points (example_lead(''industry'' := None)) (Some offer_erp) = Inr 0"
    by (simp add: industry_points_cases offer_erp_def a icp_points_def lo split_erp)
  from c blank_industry_text n e0 a0 show ?thesis by simp
qed

text \<open>
  C10: when the first entry of \<open>ideal_use_cases\<close> is the empty string, the industry
  points are 20 for every lead, also for one with no industry cell: the empty string is
  a substring of every string.
\<close>

theorem empty_use_case_matches:
  assumes "ideal_use_cases off = [] # rest"
  shows "industry_points lead (Some off) = Inr 20 \<and>
         rule_based_score lead (Some off) =
           Inr (seniority_points lead + 20 + completeness_points lead)"
  using assms by (simp add: rule_based_score_sum industry_points_cases icp_points_def)

theorem empty_use_case_matches_witness:
  "ideal_use_cases offer_blank = [] # [''finance''] \<and>
   industry_points Map.empty (Some offer_blank) = Inr 20 \<and>
   rule_based_score Map.empty (Some offer_blank) = Inr 20"
proof -
  have a: "ideal_use_cases offer_blank = [] # [''finance'']"
    by (simp add: offer_blank_def)
  have s: "seniority_points Map.empty = 0"
    by (simp add: seniority_points_def role_text_def dict_get_def tier_a_def tier_b_def)
  have c: "completeness_points Map.empty = 0"
    by (simp add: completeness_points_def required_cols_def dict_get_def)
  from empty_use_case_matches [OF a, of Map.empty] a s c show ?thesis by simp
qed

subsection \<open>The points of the intent\<close>

text \<open>
  C4 at a reply whose intent is a JSON list: the classifier returns the object, since
  both keys are there; the lookup of line 174 then raises TypeError, because a list
  cannot be hashed. The pass ends with that exception instead of adding 30, and the
  results are left empty.
\<close>

theorem list_intent_raises:
  \<open>ai_score_and_reason sample_loads
     (Some (fixed_service (Choices [Some ''{"intent": ["High"], "reasoning": "x"}''])))
     example_lead (Some example_offer) =
     Inr [(''intent'', JArr [JStr ''High'']), (''reasoning'', JStr ''x'')] \<and>
   combine 40 (JArr [JStr ''High'']) = Inl TypeError \<and>
   score_leads sample_loads
     (Some (fixed_service (Choices [Some ''{"intent": ["High"], "reasoning": "x"}''])))
     scored_session =
     (Inl TypeError, scored_session\<lparr>RESULTS := []\<rparr>)\<close>
  by (simp add: combine_def ai_points_def score_leads_def scored_session_def offer_truthy_def
      score_one_def example_score ai_score_and_reason_def ai_try_def fixed_service_def
      subscript0_def sample_loads_values)

end
